theory Spec2Isabelle
  imports Main "HOL-Library.AList" "HOL-Library.Multiset"
begin

section \<open>PropertyBag (Source/DataSources/PropertyBag.js)\<close>

text \<open>
  A PropertyBag is a JavaScript object that keeps an array of registered property names
  (\<^verbatim>\<open>_propertyNames\<close>), one accessor per registered name, and an event
  (\<^verbatim>\<open>_definitionChanged\<close>) that it raises when its definition changes. The
  theory embeds the methods of the file as functions on an explicit bag state. The values
  held by a bag are JavaScript values; objects are references into a store of member
  objects that the bag does not own. What such an object does when one of its methods is
  called (the Property interface: \<^verbatim>\<open>getValue\<close>, \<^verbatim>\<open>isConstant\<close>,
  \<^verbatim>\<open>merge\<close>, \<^verbatim>\<open>clone\<close>, \<^verbatim>\<open>equals\<close>) is a parameter of
  the model, and so is the state \<open>'w\<close> of that store.

  A bag object answers some names by itself: its two fields, the members of its
  prototype, and what every object inherits. Reading such a name on a bag that has no
  slot under it yields that field or method, a defined value that is not a Property.
  The methods are embedded for bags whose own fields and methods are in place: a call of
  \<open>addProperty\<close> with one of these names replaces that field or method of the object,
  and what the methods of the file do on such a bag is not modelled.
\<close>

subsection \<open>Values\<close>

type_synonym ref = nat

type_synonym time = int

text \<open>
  \<open>Builtin n\<close> is the field or method \<open>n\<close> of the bag object itself, as a value.
\<close>

datatype val = Undefined | Null | Num int | Str string | Obj ref | Builtin string

text \<open>
  \<open>DeveloperError\<close> is the error the file throws, with its message. \<open>TypeError\<close> is
  the error of the language for reading a property of undefined or null.
\<close>

datatype error = DeveloperError string | TypeError

text \<open>
  Modelled from the spec: \<^verbatim>\<open>Core/defined\<close> is imported by PropertyBag.js and is not
  among the sources. The spec calls the values it rejects undefined, absent, missing or
  empty; the model reads both JavaScript non-values, \<open>undefined\<close> and \<open>null\<close>, that way.
\<close>

definition defined :: "val \<Rightarrow> bool" where
  "defined v = (v \<noteq> Undefined \<and> v \<noteq> Null)"

text \<open>
  Modelled from the spec: \<^verbatim>\<open>Core/defaultValue\<close> is not among the sources. The spec
  describes the member factory as optional with a default; an argument that was not
  passed is \<open>None\<close>.
\<close>

definition defaultValue :: "'a option \<Rightarrow> 'a \<Rightarrow> 'a" where
  "defaultValue a b = (case a of None \<Rightarrow> b | Some x \<Rightarrow> x)"




subsection \<open>Member objects: the Property interface\<close>

text \<open>
  The behaviour of the objects a bag can hold. \<open>hasGetValue\<close>, \<open>hasMerge\<close> and
  \<open>hasClone\<close> say whether the object at a reference has the method
  (\<^verbatim>\<open>defined(o.merge)\<close>); the other fields are the methods themselves, reading or
  changing the store of member objects.
\<close>

record 'w capabilities =
  hasGetValue :: "ref \<Rightarrow> bool"
  hasMerge :: "ref \<Rightarrow> bool"
  hasClone :: "ref \<Rightarrow> bool"
  mergeOf :: "ref \<Rightarrow> val \<Rightarrow> 'w \<Rightarrow> 'w"
  cloneOf :: "ref \<Rightarrow> 'w \<Rightarrow> val \<times> 'w"
  getValueOf :: "ref \<Rightarrow> time \<Rightarrow> 'w \<Rightarrow> val"
  isConstantOf :: "ref \<Rightarrow> 'w \<Rightarrow> bool"
  equalsOf :: "ref \<Rightarrow> val \<Rightarrow> 'w \<Rightarrow> bool"

text \<open>
  \<^verbatim>\<open>defined(v.getValue)\<close>, \<^verbatim>\<open>defined(v.merge)\<close> and \<^verbatim>\<open>defined(v.clone)\<close>
  for a defined value \<open>v\<close>: a number or a string has none of the three.
\<close>

definition supportsGetValue :: "'w capabilities \<Rightarrow> val \<Rightarrow> bool" where
  "supportsGetValue c v = (case v of Obj r \<Rightarrow> hasGetValue c r | _ \<Rightarrow> False)"

definition supportsMerge :: "'w capabilities \<Rightarrow> val \<Rightarrow> bool" where
  "supportsMerge c v = (case v of Obj r \<Rightarrow> hasMerge c r | _ \<Rightarrow> False)"

definition supportsClone :: "'w capabilities \<Rightarrow> val \<Rightarrow> bool" where
  "supportsClone c v = (case v of Obj r \<Rightarrow> hasClone c r | _ \<Rightarrow> False)"

text \<open>\<^verbatim>\<open>target.merge(sourceValue)\<close> and \<^verbatim>\<open>v.clone()\<close>.\<close>

definition callMerge :: "'w capabilities \<Rightarrow> val \<Rightarrow> val \<Rightarrow> 'w \<Rightarrow> 'w" where
  "callMerge c target sv w = (case target of Obj r \<Rightarrow> mergeOf c r sv w | _ \<Rightarrow> w)"

definition callClone :: "'w capabilities \<Rightarrow> val \<Rightarrow> 'w \<Rightarrow> val \<times> 'w" where
  "callClone c v w = (case v of Obj r \<Rightarrow> cloneOf c r w | _ \<Rightarrow> (Undefined, w))"

text \<open>
  Modelled from the spec: \<^verbatim>\<open>Property.getValueOrUndefined\<close> (\<^verbatim>\<open>./Property\<close>)
  is not among the sources. By the spec an absent or unset member evaluates to undefined,
  a member object is evaluated at the time, and a raw value stored as it is acts as a
  constant passed through: it evaluates to itself.
\<close>

definition Property_getValueOrUndefined :: "'w capabilities \<Rightarrow> 'w \<Rightarrow> val \<Rightarrow> time \<Rightarrow> val" where
  "Property_getValueOrUndefined c w property t =
     (if defined property
      then (case property of Obj r \<Rightarrow> getValueOf c r t w | raw \<Rightarrow> raw)
      else Undefined)"

text \<open>
  Modelled from the spec: \<^verbatim>\<open>Property.isConstant\<close> (\<^verbatim>\<open>./Property\<close>) is not among
  the sources. By the spec a member reports its own constancy; what is not a member
  object (no value, or a raw value stored as it is) does not vary with time.
\<close>

definition Property_isConstant :: "'w capabilities \<Rightarrow> 'w \<Rightarrow> val \<Rightarrow> bool" where
  "Property_isConstant c w property =
     (case property of Obj r \<Rightarrow> isConstantOf c r w | _ \<Rightarrow> True)"

text \<open>
  Modelled from the spec: \<^verbatim>\<open>Property.equals\<close> (\<^verbatim>\<open>./Property\<close>) is not among the
  sources. By the spec two held values are compared under the equality of the Property
  interface, which takes undefined and undefined as equal and a Property and undefined
  as unequal.
\<close>

definition Property_equals :: "'w capabilities \<Rightarrow> 'w \<Rightarrow> val \<Rightarrow> val \<Rightarrow> bool" where
  "Property_equals c w left right =
     (left = right \<or>
      (defined right \<and> (case left of Obj r \<Rightarrow> equalsOf c r right w | _ \<Rightarrow> False)))"

subsection \<open>The bag\<close>

text \<open>
  \<open>createPropertyCallback\<close>: called by a slot's setter on a value that is not a
  Property; it may create an object.
\<close>

type_synonym 'w callback = "val \<Rightarrow> 'w \<Rightarrow> val \<times> 'w"

text \<open>
  \<open>propertyNames\<close> is the array \<^verbatim>\<open>_propertyNames\<close>. \<open>accessors\<close> holds, for each
  name with an accessor installed by \<^verbatim>\<open>Object.defineProperty\<close>, the callback the
  descriptor was created with. \<open>members\<close> is what \<^verbatim>\<open>this[name]\<close> reads for each
  name: the value of its slot, or what the object answers without one.
  \<open>raised\<close> is the log of \<^verbatim>\<open>_definitionChanged.raiseEvent\<close>: one entry per raise,
  holding what a listener that receives the bag sees in it at that moment, its registered
  names with their values. The log holds the raises the bag's own methods and slots
  make; a member object that changes by itself is outside the model.
\<close>

record 'w bag =
  propertyNames :: "string list"
  accessors :: "string \<Rightarrow> 'w callback option"
  members :: "string \<Rightarrow> val"
  raised :: "(string \<times> val) list list"

text \<open>
  The names a PropertyBag answers without any slot: the fields the constructor sets
  (lines 30 and 31), the members the file defines on the prototype (lines 38 to 253),
  and the members of \<^verbatim>\<open>Object.prototype\<close>, which every object inherits.
\<close>

definition bagNames :: "string list" where
  "bagNames =
     [''_propertyNames'', ''_definitionChanged'', ''propertyNames'', ''isConstant'',
      ''definitionChanged'', ''hasProperty'', ''addProperty'', ''removeProperty'',
      ''getValue'', ''merge'', ''equals'']"

definition objectNames :: "string list" where
  "objectNames =
     [''constructor'', ''toString'', ''toLocaleString'', ''valueOf'', ''hasOwnProperty'',
      ''isPrototypeOf'', ''propertyIsEnumerable'', ''__proto__'', ''__defineGetter__'',
      ''__defineSetter__'', ''__lookupGetter__'', ''__lookupSetter__'']"

definition builtinNames :: "string list" where
  "builtinNames = bagNames @ objectNames"

text \<open>What \<^verbatim>\<open>this[name]\<close> reads on a bag that has nothing of its own under the name.\<close>

definition absentMember :: "string \<Rightarrow> val" where
  "absentMember n = (if n \<in> set builtinNames then Builtin n else Undefined)"

text \<open>\<^verbatim>\<open>new PropertyBag()\<close>: no registered names, no slots, nothing raised.\<close>

definition emptyBag :: "'w bag" where
  "emptyBag = \<lparr>propertyNames = [], accessors = (\<lambda>n. None), members = absentMember, raised = []\<rparr>"

text \<open>
  Modelled from the spec: \<^verbatim>\<open>this[name]\<close> reads through the getter of the slot, which
  \<^verbatim>\<open>createPropertyDescriptor\<close> (not among the sources) creates. By the spec the bag
  maps each registered name to the value it holds, or to undefined before the first
  assignment. Under a name without a slot the read finds what the object answers by
  itself.
\<close>

definition getMember :: "'w bag \<Rightarrow> string \<Rightarrow> val" where
  "getMember b n = members b n"

definition snapshot :: "'w bag \<Rightarrow> (string \<times> val) list" where
  "snapshot b = map (\<lambda>n. (n, members b n)) (propertyNames b)"

definition raiseEvent :: "'w bag \<Rightarrow> 'w bag" where
  "raiseEvent b = b\<lparr>raised := raised b @ [snapshot b]\<rparr>"

text \<open>\<^verbatim>\<open>Array.prototype.indexOf\<close> and \<^verbatim>\<open>splice(index, 1)\<close>.\<close>

fun indexOf :: "'a list \<Rightarrow> 'a \<Rightarrow> int" where
  "indexOf [] x = - 1"
| "indexOf (y # ys) x =
     (if y = x then 0 else (let i = indexOf ys x in if i = - 1 then - 1 else i + 1))"

definition splice1 :: "'a list \<Rightarrow> int \<Rightarrow> 'a list" where
  "splice1 xs i = take (nat i) xs @ drop (nat i + 1) xs"

definition hasProperty :: "'w bag \<Rightarrow> string \<Rightarrow> bool" where
  "hasProperty b propertyName = (indexOf (propertyNames b) propertyName \<noteq> - 1)"

definition createRawProperty :: "'w callback" where
  "createRawProperty v w = (v, w)"

text \<open>
  Modelled from the spec: \<^verbatim>\<open>createPropertyDescriptor\<close> is not among the sources.
  \<open>defineAccessor\<close> is
  \<^verbatim>\<open>Object.defineProperty(this, name, createPropertyDescriptor(name, true, callback))\<close>:
  by the spec it installs the accessor slot of the name, which holds undefined until its
  first assignment.
\<close>

definition defineAccessor :: "string \<Rightarrow> 'w callback \<Rightarrow> 'w bag \<Rightarrow> 'w bag" where
  "defineAccessor n createPropertyCallback b =
     b\<lparr>accessors := (accessors b)(n := Some createPropertyCallback),
       members := (members b)(n := Undefined)\<rparr>"

text \<open>
  Modelled from the spec: \<^verbatim>\<open>delete this[propertyName]\<close> removes what
  \<^verbatim>\<open>createPropertyDescriptor\<close> installed; by the spec it deletes the slot. The name
  then reads as on a bag that never had it.
\<close>

definition deleteMember :: "string \<Rightarrow> 'w bag \<Rightarrow> 'w bag" where
  "deleteMember n b =
     b\<lparr>accessors := (accessors b)(n := None), members := (members b)(n := absentMember n)\<rparr>"

text \<open>
  Modelled from the spec: the wrapping done by the setter of a slot. By the spec the
  setter, given a value that does not already satisfy the Property interface, wraps it
  with the member factory before storing it. A value satisfies the interface when it is
  an object with \<open>getValue\<close>.
\<close>

definition wrapValue :: "'w capabilities \<Rightarrow> 'w callback \<Rightarrow> val \<Rightarrow> 'w \<Rightarrow> val \<times> 'w" where
  "wrapValue c createPropertyCallback v w =
     (if \<not> supportsGetValue c v then createPropertyCallback v w else (v, w))"

text \<open>
  Modelled from the spec: the assignment \<^verbatim>\<open>this[name] = value\<close>, which runs the setter
  \<^verbatim>\<open>createPropertyDescriptor\<close> (not among the sources) creates. By the spec the setter
  stores the wrapped value, and the bag re-raises its own change notification whenever
  any member's value changes: the notifications of \<open>merge\<close> are a byproduct of its
  registrations and assignments. The setter's subscription to the new member's own
  notifier is not part of the state modelled here. A name without an accessor is an
  ordinary field of the object.
\<close>

definition setMember :: "'w capabilities \<Rightarrow> string \<Rightarrow> val \<Rightarrow> 'w bag \<times> 'w \<Rightarrow> 'w bag \<times> 'w" where
  "setMember c n v s =
     (case accessors (fst s) n of
        None \<Rightarrow> ((fst s)\<lparr>members := (members (fst s))(n := v)\<rparr>, snd s)
      | Some createPropertyCallback \<Rightarrow>
          (let oldValue = members (fst s) n;
               wrapped = wrapValue c createPropertyCallback v (snd s)
           in if oldValue \<noteq> fst wrapped
              then (raiseEvent ((fst s)\<lparr>members := (members (fst s))(n := fst wrapped)\<rparr>),
                    snd wrapped)
              else (fst s, snd wrapped)))"

subsection \<open>addProperty, removeProperty\<close>

text \<open>
  A method that can throw returns the error, if any, together with the state it leaves.
  The name argument is \<open>None\<close> when it was not passed.
\<close>

definition addProperty ::
  "'w capabilities \<Rightarrow> string option \<Rightarrow> val \<Rightarrow> 'w callback option \<Rightarrow> 'w bag \<times> 'w
     \<Rightarrow> error option \<times> 'w bag \<times> 'w" where
  "addProperty c propertyName v createPropertyCallback s =
     (case propertyName of
        None \<Rightarrow> (Some (DeveloperError ''propertyName is required.''), s)
      | Some n \<Rightarrow>
          if indexOf (propertyNames (fst s)) n \<noteq> - 1
          then (Some (DeveloperError (n @ '' is already a registered property.'')), s)
          else
            (let b1 = (fst s)\<lparr>propertyNames := propertyNames (fst s) @ [n]\<rparr>;
                 b2 = defineAccessor n (defaultValue createPropertyCallback createRawProperty) b1;
                 s3 = (if defined v then setMember c n v (b2, snd s) else (b2, snd s))
             in (None, (raiseEvent (fst s3), snd s3))))"

definition removeProperty :: "string option \<Rightarrow> 'w bag \<Rightarrow> error option \<times> 'w bag" where
  "removeProperty propertyName b =
     (let index = (case propertyName of None \<Rightarrow> - 1 | Some n \<Rightarrow> indexOf (propertyNames b) n)
      in case propertyName of
           None \<Rightarrow> (Some (DeveloperError ''propertyName is required.''), b)
         | Some n \<Rightarrow>
             if index = - 1
             then (Some (DeveloperError (n @ '' is not a registered property.'')), b)
             else (None,
                   raiseEvent
                     (deleteMember n (b\<lparr>propertyNames := splice1 (propertyNames b) index\<rparr>))))"

subsection \<open>isConstant, getValue\<close>

fun isConstant_loop :: "'w capabilities \<Rightarrow> 'w \<Rightarrow> 'w bag \<Rightarrow> string list \<Rightarrow> bool" where
  "isConstant_loop c w b [] = True"
| "isConstant_loop c w b (n # ns) =
     (if \<not> Property_isConstant c w (getMember b n) then False else isConstant_loop c w b ns)"

definition isConstant :: "'w capabilities \<Rightarrow> 'w \<Rightarrow> 'w bag \<Rightarrow> bool" where
  "isConstant c w b = isConstant_loop c w b (propertyNames b)"

text \<open>
  The result object of \<open>getValue\<close> is a list of its keys with their values, in the order
  the keys were first assigned; \<^verbatim>\<open>result[name] = x\<close> is \<open>AList.update\<close>.
\<close>

fun getValue_loop ::
  "'w capabilities \<Rightarrow> 'w \<Rightarrow> 'w bag \<Rightarrow> time \<Rightarrow> string list \<Rightarrow> (string \<times> val) list
     \<Rightarrow> (string \<times> val) list" where
  "getValue_loop c w b t [] result = result"
| "getValue_loop c w b t (n # ns) result =
     getValue_loop c w b t ns
       (AList.update n (Property_getValueOrUndefined c w (getMember b n) t) result)"

definition getValue ::
  "'w capabilities \<Rightarrow> 'w \<Rightarrow> 'w bag \<Rightarrow> time option \<Rightarrow> error + (string \<times> val) list" where
  "getValue c w b time =
     (case time of
        None \<Rightarrow> Inl (DeveloperError ''time is required.'')
      | Some t \<Rightarrow> Inr (getValue_loop c w b t (propertyNames b) []))"

subsection \<open>merge\<close>

text \<open>
  The source of a merge: not passed, a bag, or a plain object given by its keys and
  values in the order of \<^verbatim>\<open>Object.keys\<close>. Line 194 takes the names from
  \<^verbatim>\<open>source._propertyNames\<close> whenever that is defined: \<open>BagSource\<close> stands for every
  source with a defined \<^verbatim>\<open>_propertyNames\<close>, an array of names, and \<open>PlainSource\<close>
  for an object on which \<^verbatim>\<open>_propertyNames\<close> is not defined. A source bag is given by
  its state when \<open>merge\<close> is called. The loop changes neither
  the names nor the members of its source, also when the source is the receiver itself:
  a slot is assigned only while it holds no value, and then the source value read from
  the same slot is undefined and the iteration assigns nothing.
\<close>

datatype 'w source = NoSource | BagSource "'w bag" | PlainSource "(string \<times> val) list"

definition sourcePropertyNames :: "'w source \<Rightarrow> string list" where
  "sourcePropertyNames source =
     (case source of
        NoSource \<Rightarrow> []
      | BagSource sb \<Rightarrow> propertyNames sb
      | PlainSource kvs \<Rightarrow> map fst kvs)"

definition sourceGet :: "'w source \<Rightarrow> string \<Rightarrow> val" where
  "sourceGet source n =
     (case source of
        NoSource \<Rightarrow> Undefined
      | BagSource sb \<Rightarrow> getMember sb n
      | PlainSource kvs \<Rightarrow> (case map_of kvs n of None \<Rightarrow> Undefined | Some v \<Rightarrow> v))"

text \<open>The body of the loop of \<open>merge\<close>, for one name of the source.\<close>

definition mergeStep ::
  "'w capabilities \<Rightarrow> 'w source \<Rightarrow> 'w callback option \<Rightarrow> string \<Rightarrow> 'w bag \<times> 'w
     \<Rightarrow> error option \<times> 'w bag \<times> 'w" where
  "mergeStep c source createPropertyCallback name s =
     (let targetProperty = getMember (fst s) name;
          sourceProperty = sourceGet source name;
          added = (if \<not> defined targetProperty \<and> indexOf (propertyNames (fst s)) name = - 1
                   then addProperty c (Some name) Undefined createPropertyCallback s
                   else (None, s))
      in case fst added of
           Some e \<Rightarrow> added
         | None \<Rightarrow>
             if defined sourceProperty
             then (if defined targetProperty
                   then (if supportsMerge c targetProperty
                         then (None, (fst (snd added),
                                      callMerge c targetProperty sourceProperty (snd (snd added))))
                         else (None, snd added))
                   else if supportsMerge c sourceProperty \<and> supportsClone c sourceProperty
                   then (let cloned = callClone c sourceProperty (snd (snd added))
                         in (None, setMember c name (fst cloned) (fst (snd added), snd cloned)))
                   else (None, setMember c name sourceProperty (snd added)))
             else (None, snd added))"

fun mergeLoop ::
  "'w capabilities \<Rightarrow> 'w source \<Rightarrow> 'w callback option \<Rightarrow> string list \<Rightarrow> 'w bag \<times> 'w
     \<Rightarrow> error option \<times> 'w bag \<times> 'w" where
  "mergeLoop c source createPropertyCallback [] s = (None, s)"
| "mergeLoop c source createPropertyCallback (name # names) s =
     (case mergeStep c source createPropertyCallback name s of
        (Some e, s') \<Rightarrow> (Some e, s')
      | (None, s') \<Rightarrow> mergeLoop c source createPropertyCallback names s')"

definition merge ::
  "'w capabilities \<Rightarrow> 'w source \<Rightarrow> 'w callback option \<Rightarrow> 'w bag \<times> 'w
     \<Rightarrow> error option \<times> 'w bag \<times> 'w" where
  "merge c source createPropertyCallback s =
     (case source of
        NoSource \<Rightarrow> (Some (DeveloperError ''source is required.''), s)
      | _ \<Rightarrow> mergeLoop c source createPropertyCallback (sourcePropertyNames source) s)"

text \<open>The constructor: an empty bag, merged with the value when one is given.\<close>

definition PropertyBag ::
  "'w capabilities \<Rightarrow> 'w source \<Rightarrow> 'w callback option \<Rightarrow> 'w \<Rightarrow> error option \<times> 'w bag \<times> 'w" where
  "PropertyBag c v createPropertyCallback w =
     (case v of
        NoSource \<Rightarrow> (None, (emptyBag, w))
      | _ \<Rightarrow> merge c v createPropertyCallback (emptyBag, w))"

subsection \<open>equals\<close>

fun propertiesEqual_loop ::
  "'w capabilities \<Rightarrow> 'w \<Rightarrow> 'w bag \<Rightarrow> 'w bag \<Rightarrow> string list \<Rightarrow> bool" where
  "propertiesEqual_loop c w a b [] = True"
| "propertiesEqual_loop c w a b (name # names) =
     (if indexOf (propertyNames b) name = - 1 then False
      else if \<not> Property_equals c w (getMember a name) (getMember b name) then False
      else propertiesEqual_loop c w a b names)"

text \<open>
  \<open>equals\<close> compares object identities, so the bags live in a store \<open>h\<close> of PropertyBag
  instances: \<open>this\<close> is the address of the receiver, and a value is an instance of
  PropertyBag when it is the address of a bag of the store.
\<close>

definition instanceAt :: "(ref \<Rightarrow> 'w bag option) \<Rightarrow> val \<Rightarrow> 'w bag option" where
  "instanceAt h v = (case v of Obj r \<Rightarrow> h r | _ \<Rightarrow> None)"

definition instanceofPropertyBag :: "(ref \<Rightarrow> 'w bag option) \<Rightarrow> val \<Rightarrow> bool" where
  "instanceofPropertyBag h v = (instanceAt h v \<noteq> None)"

text \<open>
  \<open>propertiesEqual(a, b)\<close> starts by reading \<^verbatim>\<open>a._propertyNames\<close>,
  \<^verbatim>\<open>b._propertyNames\<close> and the \<open>length\<close> of both (lines 221 to 225). On undefined
  or null the first read is a TypeError; on a value without \<^verbatim>\<open>_propertyNames\<close> the
  read of \<open>length\<close> is. A number, a string and an object that is not a bag of the store
  have no \<^verbatim>\<open>_propertyNames\<close>. On two bags the function compares the lengths and runs
  the loop.
\<close>

definition propertiesEqual ::
  "'w capabilities \<Rightarrow> 'w \<Rightarrow> (ref \<Rightarrow> 'w bag option) \<Rightarrow> val \<Rightarrow> val \<Rightarrow> error + bool" where
  "propertiesEqual c w h a b =
     (case (instanceAt h a, instanceAt h b) of
        (Some bagA, Some bagB) \<Rightarrow>
          if length (propertyNames bagA) \<noteq> length (propertyNames bagB) then Inr False
          else Inr (propertiesEqual_loop c w bagA bagB (propertyNames bagA))
      | _ \<Rightarrow> Inl TypeError)"

text \<open>
  \<^verbatim>\<open>this === other || (other instanceof PropertyBag && propertiesEqual(this, other))\<close>:
  the operands to the right are evaluated only when those to their left do not decide.
\<close>

definition equals ::
  "'w capabilities \<Rightarrow> 'w \<Rightarrow> (ref \<Rightarrow> 'w bag option) \<Rightarrow> ref \<Rightarrow> val \<Rightarrow> error + bool" where
  "equals c w h this other =
     (if Obj this = other then Inr True
      else if instanceofPropertyBag h other then propertiesEqual c w h (Obj this) other
      else Inr False)"

subsection \<open>Reading the result of a method\<close>

definition errorOf :: "error option \<times> 'w bag \<times> 'w \<Rightarrow> error option" where
  "errorOf r = fst r"

definition bagOf :: "error option \<times> 'w bag \<times> 'w \<Rightarrow> 'w bag" where
  "bagOf r = fst (snd r)"

definition worldOf :: "error option \<times> 'w bag \<times> 'w \<Rightarrow> 'w" where
  "worldOf r = snd (snd r)"

text \<open>
  The callback of the setter that an iteration of \<open>merge\<close> for the name \<open>n\<close> runs when
  the slot of \<open>n\<close> is empty: the one \<open>n\<close> was registered with, or, for a name the
  iteration registers itself, the callback given to \<open>merge\<close>. \<open>storedValue\<close> is what
  the assignment of \<open>v\<close> then leaves in the slot.
\<close>

definition slotFactory :: "'w callback option \<Rightarrow> 'w bag \<Rightarrow> string \<Rightarrow> 'w callback option" where
  "slotFactory cb b n =
     (if n \<in> set (propertyNames b) then accessors b n
      else Some (defaultValue cb createRawProperty))"

definition storedValue :: "'w capabilities \<Rightarrow> 'w callback option \<Rightarrow> val \<Rightarrow> 'w \<Rightarrow> val" where
  "storedValue c k v w = (case k of None \<Rightarrow> v | Some f \<Rightarrow> fst (wrapValue c f v w))"

text \<open>A raw value of a plain object: a number, a string, or no value at all.\<close>

definition isRaw :: "val \<Rightarrow> bool" where
  "isRaw v = (case v of Undefined \<Rightarrow> True | Num i \<Rightarrow> True | Str s \<Rightarrow> True | _ \<Rightarrow> False)"

subsection \<open>A concrete store of member objects\<close>

text \<open>
  An instance of the Property interface, used to run the methods on concrete bags. The
  store of member objects is the list of the \<open>merge\<close> calls made on them. Every object
  has \<open>getValue\<close>; the objects below 10 have \<open>merge\<close>, those below 5 have \<open>clone\<close>; the
  clone of the object \<open>r\<close> is the object \<open>r + 100\<close>; an object below 100 is constant
  with its address as value, the others vary with time.
\<close>

definition exampleCaps :: "(ref \<times> val) list capabilities" where
  "exampleCaps =
     \<lparr>hasGetValue = (\<lambda>r. True),
      hasMerge = (\<lambda>r. r < 10),
      hasClone = (\<lambda>r. r < 5),
      mergeOf = (\<lambda>r v w. w @ [(r, v)]),
      cloneOf = (\<lambda>r w. (Obj (r + 100), w)),
      getValueOf = (\<lambda>r t w. if r < 100 then Num (int r) else Num (int r + t)),
      isConstantOf = (\<lambda>r w. r < 100),
      equalsOf = (\<lambda>r v w. v = Obj r)\<rparr>"

text \<open>A bag with the members \<open>a\<close>, a mergeable object, and \<open>b\<close>, the number 7.\<close>

definition exampleBag :: "(ref \<times> val) list bag" where
  "exampleBag =
     \<lparr>propertyNames = [''a'', ''b''],
      accessors = (\<lambda>n. if n = ''a'' \<or> n = ''b'' then Some createRawProperty else None),
      members = (\<lambda>n. if n = ''a'' then Obj 1 else if n = ''b'' then Num 7 else absentMember n),
      raised = []\<rparr>"

text \<open>
  Two PropertyBag instances at the addresses 0 and 1 with the same members, registered in
  opposite orders.
\<close>

definition exampleStore :: "ref \<Rightarrow> (ref \<times> val) list bag option" where
  "exampleStore r =
     (if r = 0 then Some exampleBag
      else if r = 1 then Some (exampleBag\<lparr>propertyNames := [''b'', ''a'']\<rparr>)
      else None)"

section \<open>Lemmas\<close>

subsection \<open>Arrays\<close>

lemma indexOf_ge: "- 1 \<le> indexOf xs x"
  by (induction xs) (auto simp: Let_def)

lemma indexOf_absent: "indexOf xs x = - 1 \<longleftrightarrow> x \<notin> set xs"
proof (induction xs)
  case Nil
  show ?case by simp
next
  case (Cons y ys)
  have "- 1 \<le> indexOf ys x" by (rule indexOf_ge)
  with Cons show ?case by (auto simp: Let_def)
qed

lemma hasProperty_iff: "hasProperty b n \<longleftrightarrow> n \<in> set (propertyNames b)"
  by (simp add: hasProperty_def indexOf_absent)

text \<open>\<^verbatim>\<open>splice(indexOf(x), 1)\<close> removes the first occurrence of an element.\<close>

lemma splice1_indexOf: "x \<in> set xs \<Longrightarrow> splice1 xs (indexOf xs x) = remove1 x xs"
proof (induction xs)
  case Nil
  then show ?case by simp
next
  case (Cons y ys)
  show ?case
  proof (cases "y = x")
    case True
    then show ?thesis by (simp add: splice1_def)
  next
    case False
    with Cons.prems have m: "x \<in> set ys" by simp
    then have a: "indexOf ys x \<noteq> - 1" by (simp add: indexOf_absent)
    with indexOf_ge[of ys x] have g: "0 \<le> indexOf ys x" by linarith
    have "splice1 ys (indexOf ys x) = remove1 x ys" using m by (rule Cons.IH)
    then show ?thesis
      using False a g by (simp add: splice1_def Let_def nat_add_distrib)
  qed
qed

subsection \<open>Slots\<close>

lemma getMember_raiseEvent: "getMember (raiseEvent b) n = getMember b n"
  by (simp add: getMember_def raiseEvent_def)

lemma getMember_defineAccessor:
  "getMember (defineAccessor m k b) n = (if m = n then Undefined else getMember b n)"
  by (simp add: getMember_def defineAccessor_def)

lemma getMember_names_update: "getMember (b\<lparr>propertyNames := ns\<rparr>) n = getMember b n"
  by (simp add: getMember_def)

lemmas getMember_simps = getMember_raiseEvent getMember_defineAccessor getMember_names_update

lemma accessors_raiseEvent: "accessors (raiseEvent b) = accessors b"
  by (simp add: raiseEvent_def)

lemma setMember_names: "propertyNames (fst (setMember c m v s)) = propertyNames (fst s)"
  by (simp add: setMember_def raiseEvent_def Let_def split: option.splits)

lemma setMember_accessors: "accessors (fst (setMember c m v s)) = accessors (fst s)"
  by (simp add: setMember_def raiseEvent_def Let_def split: option.splits)

lemma setMember_other: "m \<noteq> n \<Longrightarrow> getMember (fst (setMember c m v s)) n = getMember (fst s) n"
  by (simp add: setMember_def raiseEvent_def getMember_def Let_def split: option.splits)

lemma setMember_same:
  "getMember (fst (setMember c n v s)) n =
     (case accessors (fst s) n of None \<Rightarrow> v | Some k \<Rightarrow> fst (wrapValue c k v (snd s)))"
  by (simp add: setMember_def raiseEvent_def getMember_def Let_def split: option.splits)

lemma storedValue_raw:
  "supportsGetValue c v \<or> k = None \<or> k = Some createRawProperty \<Longrightarrow> storedValue c k v w = v"
  by (auto simp: storedValue_def wrapValue_def createRawProperty_def split: option.splits)

lemma addProperty_new:
  "n \<notin> set (propertyNames (fst s)) \<Longrightarrow>
   addProperty c (Some n) Undefined cb s =
     (None, (raiseEvent (defineAccessor n (defaultValue cb createRawProperty)
                ((fst s)\<lparr>propertyNames := propertyNames (fst s) @ [n]\<rparr>)), snd s))"
  by (simp add: addProperty_def indexOf_absent defined_def Let_def)


lemma removeProperty_registered:
  "n \<in> set (propertyNames b) \<Longrightarrow>
   removeProperty (Some n) b =
     (None, raiseEvent (deleteMember n (b\<lparr>propertyNames := remove1 n (propertyNames b)\<rparr>)))"
  by (simp add: removeProperty_def indexOf_absent splice1_indexOf)

lemma PropertyBag_new:
  "PropertyBag c NoSource cb w = (None, (emptyBag, w))"
  "v \<noteq> NoSource \<Longrightarrow> PropertyBag c v cb w = merge c v cb (emptyBag, w)"
  by (cases v; simp add: PropertyBag_def)+

subsection \<open>Registered names stay distinct\<close>

lemma addProperty_distinct:
  "distinct (propertyNames (fst s)) \<Longrightarrow>
   distinct (propertyNames (fst (snd (addProperty c n v cb s))))"
  by (auto simp: addProperty_def indexOf_absent Let_def setMember_names raiseEvent_def
      defineAccessor_def split: option.splits)

lemma removeProperty_distinct:
  "distinct (propertyNames b) \<Longrightarrow> distinct (propertyNames (snd (removeProperty n b)))"
proof (cases n)
  case None
  assume "distinct (propertyNames b)"
  with None show ?thesis by (simp add: removeProperty_def)
next
  case (Some m)
  assume d: "distinct (propertyNames b)"
  show ?thesis
  proof (cases "m \<in> set (propertyNames b)")
    case True
    with d Some show ?thesis
      by (simp add: removeProperty_registered raiseEvent_def deleteMember_def)
  next
    case False
    with d Some show ?thesis by (simp add: removeProperty_def indexOf_absent)
  qed
qed

subsection \<open>getValue\<close>




lemma update_append_new:
  "k \<notin> fst ` set al \<Longrightarrow> AList.update k v al = al @ [(k, v)]"
  by (induction al) auto

text \<open>
  On names without repetition the loop appends one entry per name: the accumulator holds
  the entries of the names \<open>ks\<close> already visited.
\<close>

lemma getValue_loop_order:
  "distinct (ks @ ns) \<Longrightarrow>
   getValue_loop c w b t ns (map (\<lambda>n. (n, f n)) ks) =
     map (\<lambda>n. (n, if n \<in> set ks then f n
                   else Property_getValueOrUndefined c w (getMember b n) t)) (ks @ ns)"
proof (induction ns arbitrary: ks f)
  case Nil
  show ?case by simp
next
  case (Cons n ns)
  let ?g = "\<lambda>k. if k = n then Property_getValueOrUndefined c w (getMember b n) t else f k"
  from Cons.prems have new: "n \<notin> set ks" and d: "distinct ((ks @ [n]) @ ns)" by auto
  have "AList.update n (Property_getValueOrUndefined c w (getMember b n) t)
          (map (\<lambda>n. (n, f n)) ks)
        = map (\<lambda>k. (k, ?g k)) (ks @ [n])"
    using new by (subst update_append_new) (auto simp: image_image)
  then have "getValue_loop c w b t (n # ns) (map (\<lambda>n. (n, f n)) ks)
        = getValue_loop c w b t ns (map (\<lambda>k. (k, ?g k)) (ks @ [n]))" by simp
  also have "\<dots> = map (\<lambda>k. (k, if k \<in> set (ks @ [n]) then ?g k
                   else Property_getValueOrUndefined c w (getMember b k) t)) ((ks @ [n]) @ ns)"
    by (rule Cons.IH[OF d])
  also have "\<dots> = map (\<lambda>k. (k, if k \<in> set ks then f k
                   else Property_getValueOrUndefined c w (getMember b k) t)) (ks @ n # ns)"
    using new by auto
  finally show ?case .
qed

lemma getValue_distinct:
  "distinct (propertyNames b) \<Longrightarrow>
   getValue c w b (Some t) =
     Inr (map (\<lambda>n. (n, Property_getValueOrUndefined c w (getMember b n) t)) (propertyNames b))"
  using getValue_loop_order[of "[]" "propertyNames b" c w b t "\<lambda>n. Undefined"]
  by (simp add: getValue_def)

lemma property_value_raw: "isRaw v \<Longrightarrow> Property_getValueOrUndefined c w v t = v"
  by (cases v) (simp_all add: isRaw_def Property_getValueOrUndefined_def defined_def)

lemma isRaw_no_methods: "isRaw v \<Longrightarrow> \<not> supportsMerge c v"
  by (cases v) (simp_all add: isRaw_def supportsMerge_def)

lemma isRaw_defined: "isRaw v \<Longrightarrow> defined v \<longleftrightarrow> v \<noteq> Undefined"
  by (cases v) (simp_all add: isRaw_def defined_def)

subsection \<open>isConstant and equals\<close>




lemma propertiesEqual_not_bag:
  "\<not> instanceofPropertyBag h b \<Longrightarrow> propertiesEqual c w h a b = Inl TypeError"
  by (simp add: propertiesEqual_def instanceofPropertyBag_def split: option.splits)



lemma equals_not_bag:
  "\<not> instanceofPropertyBag h other \<Longrightarrow> other \<noteq> Obj this \<Longrightarrow>
   equals c w h this other = Inr False"
  by (auto simp: equals_def)

subsection \<open>One iteration of merge\<close>

lemma mergeStep_no_error: "fst (mergeStep c source cb name s) = None"
  by (simp add: mergeStep_def Let_def addProperty_new indexOf_absent)

lemma mergeStep_names:
  "propertyNames (fst (snd (mergeStep c source cb name s))) =
     (if \<not> defined (getMember (fst s) name) \<and> name \<notin> set (propertyNames (fst s))
      then propertyNames (fst s) @ [name] else propertyNames (fst s))"
  by (simp add: mergeStep_def Let_def addProperty_new indexOf_absent setMember_names
      raiseEvent_def defineAccessor_def)

lemma mergeStep_other:
  "name \<noteq> n \<Longrightarrow> getMember (fst (snd (mergeStep c source cb name s))) n = getMember (fst s) n"
  by (simp add: mergeStep_def Let_def addProperty_new indexOf_absent setMember_other
      getMember_simps)

lemma mergeStep_accessors_other:
  "name \<noteq> n \<Longrightarrow> accessors (fst (snd (mergeStep c source cb name s))) n = accessors (fst s) n"
  by (simp add: mergeStep_def Let_def addProperty_new indexOf_absent setMember_accessors
      accessors_raiseEvent defineAccessor_def)

text \<open>A slot that holds a value is never assigned: at most its member is asked to merge.\<close>

lemma mergeStep_defined_target:
  "defined (getMember (fst s) name) \<Longrightarrow>
   mergeStep c source cb name s =
     (None, (fst s,
        if defined (sourceGet source name) \<and> supportsMerge c (getMember (fst s) name)
        then callMerge c (getMember (fst s) name) (sourceGet source name) (snd s)
        else snd s))"
  by (simp add: mergeStep_def Let_def)

lemma mergeStep_keeps_defined:
  "defined (getMember (fst s) n) \<Longrightarrow>
   getMember (fst (snd (mergeStep c source cb name s))) n = getMember (fst s) n"
  by (cases "name = n") (simp_all add: mergeStep_defined_target mergeStep_other)

lemma mergeStep_undefined_source:
  "\<not> defined (sourceGet source name) \<Longrightarrow> \<not> defined (getMember (fst s) name) \<Longrightarrow>
   \<not> defined (getMember (fst (snd (mergeStep c source cb name s))) name)"
  by (simp add: mergeStep_def Let_def addProperty_new indexOf_absent getMember_simps)
    (simp add: defined_def)

lemma mergeStep_skip:
  "\<not> defined (sourceGet source name) \<Longrightarrow> name \<in> set (propertyNames (fst s)) \<Longrightarrow>
   mergeStep c source cb name s = (None, s)"
  by (simp add: mergeStep_def Let_def indexOf_absent)

lemma mergeStep_registered:
  "n \<in> set (propertyNames (fst s)) \<Longrightarrow>
   n \<in> set (propertyNames (fst (snd (mergeStep c source cb name s))))"
  by (simp add: mergeStep_names)

lemma mergeStep_keeps_Undefined:
  "\<not> defined (sourceGet source n) \<Longrightarrow> getMember (fst s) n = Undefined \<Longrightarrow>
   getMember (fst (snd (mergeStep c source cb name s))) n = Undefined"
  by (cases "name = n")
    (simp_all add: mergeStep_other, simp add: mergeStep_def Let_def addProperty_new
      indexOf_absent getMember_simps)

lemma mergeStep_assigns:
  assumes "defined (sourceGet source n)" "\<not> defined (getMember (fst s) n)"
    and "\<not> (supportsMerge c (sourceGet source n) \<and> supportsClone c (sourceGet source n))"
  shows "getMember (fst (snd (mergeStep c source cb n s))) n =
     storedValue c (slotFactory cb (fst s) n) (sourceGet source n) (snd s)"
  using assms
  by (auto simp: mergeStep_def Let_def addProperty_new indexOf_absent setMember_same
      accessors_raiseEvent defineAccessor_def slotFactory_def storedValue_def
      split: option.splits)

lemma mergeStep_distinct:
  "distinct (propertyNames (fst s)) \<Longrightarrow>
   distinct (propertyNames (fst (snd (mergeStep c source cb name s))))"
  by (simp add: mergeStep_names)

subsection \<open>The loop of merge\<close>

lemma mergeLoop_no_error: "fst (mergeLoop c source cb names s) = None"
proof (induction names arbitrary: s)
  case Nil
  show ?case by simp
next
  case (Cons name names)
  obtain s' where "mergeStep c source cb name s = (None, s')"
    using mergeStep_no_error[of c source cb name s] by (cases "mergeStep c source cb name s") auto
  then show ?case using Cons.IH by simp
qed

lemma mergeLoop_Cons:
  "mergeLoop c source cb (name # names) s =
     mergeLoop c source cb names (snd (mergeStep c source cb name s))"
  using mergeStep_no_error[of c source cb name s]
  by (cases "mergeStep c source cb name s") auto

declare mergeLoop.simps(2) [simp del]

lemma mergeLoop_append:
  "mergeLoop c source cb (xs @ ys) s =
     mergeLoop c source cb ys (snd (mergeLoop c source cb xs s))"
  by (induction xs arbitrary: s) (simp_all add: mergeLoop_Cons)

lemma merge_loop: "source \<noteq> NoSource \<Longrightarrow>
   merge c source cb s = mergeLoop c source cb (sourcePropertyNames source) s"
  by (cases source) (simp_all add: merge_def)

lemma merge_split:
  assumes "sourcePropertyNames source = pre @ n # post"
  shows "merge c source cb s =
     mergeLoop c source cb post
       (snd (mergeStep c source cb n (snd (mergeLoop c source cb pre s))))"
proof -
  from assms have "source \<noteq> NoSource" by (auto simp: sourcePropertyNames_def)
  then have "merge c source cb s = mergeLoop c source cb (pre @ n # post) s"
    using assms by (simp add: merge_loop)
  then show ?thesis by (simp add: mergeLoop_append mergeLoop_Cons)
qed

lemma mergeLoop_distinct:
  "distinct (propertyNames (fst s)) \<Longrightarrow>
   distinct (propertyNames (fst (snd (mergeLoop c source cb names s))))"
  by (induction names arbitrary: s) (simp_all add: mergeLoop_Cons mergeStep_distinct)

lemma merge_distinct:
  "distinct (propertyNames b) \<Longrightarrow> distinct (propertyNames (bagOf (merge c source cb (b, w))))"
  using mergeLoop_distinct[of "(b, w)" c source cb "sourcePropertyNames source"]
  by (cases source) (simp_all add: merge_def bagOf_def)

lemma mergeLoop_other:
  "n \<notin> set names \<Longrightarrow>
   getMember (fst (snd (mergeLoop c source cb names s))) n = getMember (fst s) n"
  by (induction names arbitrary: s) (auto simp: mergeLoop_Cons mergeStep_other)

lemma mergeLoop_accessors_other:
  "n \<notin> set names \<Longrightarrow>
   accessors (fst (snd (mergeLoop c source cb names s))) n = accessors (fst s) n"
  by (induction names arbitrary: s) (auto simp: mergeLoop_Cons mergeStep_accessors_other)

lemma mergeLoop_registered_other:
  "n \<notin> set names \<Longrightarrow>
   n \<in> set (propertyNames (fst (snd (mergeLoop c source cb names s))))
     \<longleftrightarrow> n \<in> set (propertyNames (fst s))"
  by (induction names arbitrary: s) (auto simp: mergeLoop_Cons mergeStep_names)

lemma slotFactory_after:
  "n \<notin> set names \<Longrightarrow>
   slotFactory cb (fst (snd (mergeLoop c source cb names s))) n = slotFactory cb (fst s) n"
  by (simp add: slotFactory_def mergeLoop_accessors_other mergeLoop_registered_other)

lemma mergeLoop_keeps_defined:
  "defined (getMember (fst s) n) \<Longrightarrow>
   getMember (fst (snd (mergeLoop c source cb names s))) n = getMember (fst s) n"
proof (induction names arbitrary: s)
  case Nil
  show ?case by simp
next
  case (Cons name names)
  let ?s = "snd (mergeStep c source cb name s)"
  have k: "getMember (fst ?s) n = getMember (fst s) n"
    using Cons.prems by (rule mergeStep_keeps_defined)
  with Cons.prems have "defined (getMember (fst ?s) n)" by simp
  then have "getMember (fst (snd (mergeLoop c source cb names ?s))) n = getMember (fst ?s) n"
    by (rule Cons.IH)
  with k show ?case by (simp add: mergeLoop_Cons)
qed

lemma merge_keeps_defined:
  "defined (getMember b n) \<Longrightarrow> getMember (bagOf (merge c source cb (b, w))) n = getMember b n"
  using mergeLoop_keeps_defined[of "(b, w)" n c source cb "sourcePropertyNames source"]
  by (cases source) (simp_all add: merge_def bagOf_def)

lemma mergeLoop_keeps_empty:
  "\<not> defined (sourceGet source n) \<Longrightarrow> \<not> defined (getMember (fst s) n) \<Longrightarrow>
   \<not> defined (getMember (fst (snd (mergeLoop c source cb names s))) n)"
proof (induction names arbitrary: s)
  case Nil
  then show ?case by simp
next
  case (Cons name names)
  let ?s = "snd (mergeStep c source cb name s)"
  have "\<not> defined (getMember (fst ?s) n)"
  proof (cases "name = n")
    case True
    with Cons.prems show ?thesis by (simp add: mergeStep_undefined_source)
  next
    case False
    with Cons.prems show ?thesis by (simp add: mergeStep_other)
  qed
  with Cons.prems(1) have "\<not> defined (getMember (fst (snd (mergeLoop c source cb names ?s))) n)"
    by (rule Cons.IH)
  then show ?case by (simp add: mergeLoop_Cons)
qed

lemma mergeLoop_keeps_Undefined:
  "\<not> defined (sourceGet source n) \<Longrightarrow> getMember (fst s) n = Undefined \<Longrightarrow>
   getMember (fst (snd (mergeLoop c source cb names s))) n = Undefined"
  by (induction names arbitrary: s) (simp_all add: mergeLoop_Cons mergeStep_keeps_Undefined)

lemma mergeLoop_keeps_registered:
  "\<not> defined (sourceGet source n) \<Longrightarrow> n \<in> set (propertyNames (fst s)) \<Longrightarrow>
   getMember (fst (snd (mergeLoop c source cb names s))) n = getMember (fst s) n"
proof (induction names arbitrary: s)
  case Nil
  show ?case by simp
next
  case (Cons name names)
  let ?s = "snd (mergeStep c source cb name s)"
  have r: "n \<in> set (propertyNames (fst ?s))"
    using Cons.prems(2) by (rule mergeStep_registered)
  have k: "getMember (fst ?s) n = getMember (fst s) n"
  proof (cases "name = n")
    case True
    with Cons.prems show ?thesis by (simp add: mergeStep_skip)
  next
    case False
    then show ?thesis by (rule mergeStep_other)
  qed
  have "getMember (fst (snd (mergeLoop c source cb names ?s))) n = getMember (fst ?s) n"
    using Cons.prems(1) r by (rule Cons.IH)
  with k show ?case by (simp add: mergeLoop_Cons)
qed

text \<open>
  The loop registers the names it visits, in the order it visits them, when they are new
  and the bag reads no value under them.
\<close>

lemma mergeLoop_registers:
  assumes "\<forall>n \<in> set ks. \<not> defined (getMember (fst s) n)"
    and "distinct (propertyNames (fst s) @ ks)"
  shows "propertyNames (fst (snd (mergeLoop c source cb ks s))) = propertyNames (fst s) @ ks"
  using assms
proof (induction ks arbitrary: s)
  case Nil
  show ?case by simp
next
  case (Cons k ks)
  let ?s = "snd (mergeStep c source cb k s)"
  from Cons.prems have new: "k \<notin> set (propertyNames (fst s))" "\<not> defined (getMember (fst s) k)"
    by auto
  then have n: "propertyNames (fst ?s) = propertyNames (fst s) @ [k]"
    by (simp add: mergeStep_names)
  have i: "\<forall>n \<in> set ks. \<not> defined (getMember (fst ?s) n)"
  proof
    fix n assume m: "n \<in> set ks"
    with Cons.prems(2) have "k \<noteq> n" by auto
    then have "getMember (fst ?s) n = getMember (fst s) n" by (rule mergeStep_other)
    with Cons.prems(1) m show "\<not> defined (getMember (fst ?s) n)" by simp
  qed
  have d: "distinct (propertyNames (fst ?s) @ ks)"
    using Cons.prems(2) by (simp add: n)
  have "propertyNames (fst (snd (mergeLoop c source cb ks ?s))) = propertyNames (fst ?s) @ ks"
    using i d by (rule Cons.IH)
  then show ?case by (simp add: mergeLoop_Cons n)
qed

text \<open>
  The iteration for a name that occurs once in the source, finds the slot empty and does
  not clone, leaves in the slot what the setter stores for the source value.
\<close>

lemma merge_assigns:
  assumes sp: "sourcePropertyNames source = pre @ n # post"
    and d: "n \<notin> set pre" "n \<notin> set post"
    and sv: "defined (sourceGet source n)"
    and tv: "\<not> defined (getMember b n)"
    and nc: "\<not> (supportsMerge c (sourceGet source n) \<and> supportsClone c (sourceGet source n))"
  shows "getMember (bagOf (merge c source cb (b, w))) n =
     storedValue c (slotFactory cb b n) (sourceGet source n)
       (worldOf (mergeLoop c source cb pre (b, w)))"
proof -
  let ?s1 = "snd (mergeLoop c source cb pre (b, w))"
  have t1: "getMember (fst ?s1) n = getMember b n"
    using mergeLoop_other[OF d(1), of c source cb "(b, w)"] by simp
  have f1: "slotFactory cb (fst ?s1) n = slotFactory cb b n"
    using slotFactory_after[OF d(1), of cb c source "(b, w)"] by simp
  have "getMember (fst (snd (mergeStep c source cb n ?s1))) n =
      storedValue c (slotFactory cb (fst ?s1) n) (sourceGet source n) (snd ?s1)"
    using sv tv nc t1 by (intro mergeStep_assigns) simp_all
  then show ?thesis
    by (simp add: merge_split[OF sp] bagOf_def worldOf_def mergeLoop_other[OF d(2)] f1)
qed

lemma plain_entries:
  "distinct (map fst kvs) \<Longrightarrow>
   map (\<lambda>k. (k, sourceGet (PlainSource kvs) k)) (map fst kvs) = kvs"
  by (auto simp: sourceGet_def comp_def intro!: map_idI)

text \<open>
  A name that is not registered while the bag reads a defined value under it, as it does
  for its own fields and methods, is never registered by the loop.
\<close>

lemma mergeStep_never_registers:
  "defined (getMember (fst s) n) \<Longrightarrow> n \<notin> set (propertyNames (fst s)) \<Longrightarrow>
   n \<notin> set (propertyNames (fst (snd (mergeStep c source cb name s))))"
  by (auto simp: mergeStep_names)

lemma mergeLoop_never_registers:
  "defined (getMember (fst s) n) \<Longrightarrow> n \<notin> set (propertyNames (fst s)) \<Longrightarrow>
   n \<notin> set (propertyNames (fst (snd (mergeLoop c source cb names s))))"
proof (induction names arbitrary: s)
  case Nil
  then show ?case by simp
next
  case (Cons name names)
  let ?s = "snd (mergeStep c source cb name s)"
  have "defined (getMember (fst ?s) n)"
    using Cons.prems(1) by (simp add: mergeStep_keeps_defined)
  moreover have "n \<notin> set (propertyNames (fst ?s))"
    using Cons.prems by (rule mergeStep_never_registers)
  ultimately have "n \<notin> set (propertyNames (fst (snd (mergeLoop c source cb names ?s))))"
    by (rule Cons.IH)
  then show ?case by (simp add: mergeLoop_Cons)
qed

lemma emptyBag_member: "getMember emptyBag k = absentMember k"
  by (simp add: emptyBag_def getMember_def)

lemma absentMember_defined: "defined (absentMember k) \<longleftrightarrow> k \<in> set builtinNames"
  by (simp add: absentMember_def defined_def)

lemma merge_plain_member:
  assumes d: "distinct (map fst kvs)" and k: "(k, v) \<in> set kvs" and r: "isRaw v"
    and nb: "k \<notin> set builtinNames"
  shows "getMember (bagOf (merge c (PlainSource kvs) None (emptyBag, w))) k = v"
proof -
  let ?src = "PlainSource kvs :: 'a source"
  have sv: "sourceGet ?src k = v"
    using d k by (simp add: sourceGet_def)
  from k have "k \<in> set (map fst kvs)" by force
  then obtain pre post where sp: "map fst kvs = pre @ k # post"
    by (auto dest: split_list)
  with d have nk: "k \<notin> set pre" "k \<notin> set post" by auto
  have names: "sourcePropertyNames ?src = pre @ k # post"
    by (simp add: sourcePropertyNames_def sp)
  have e: "getMember (emptyBag :: 'a bag) k = Undefined"
    using nb by (simp add: emptyBag_member absentMember_def)
  show ?thesis
  proof (cases "v = Undefined")
    case True
    have "getMember (fst (snd (mergeLoop c ?src None (map fst kvs) (emptyBag, w)))) k = Undefined"
      using sv True e by (intro mergeLoop_keeps_Undefined) (simp_all add: defined_def)
    then show ?thesis using True by (simp add: merge_def bagOf_def sourcePropertyNames_def)
  next
    case False
    have f: "slotFactory None (emptyBag :: 'a bag) k = Some createRawProperty"
      by (simp add: slotFactory_def emptyBag_def defaultValue_def)
    have "getMember (bagOf (merge c ?src None (emptyBag, w))) k =
        storedValue c (slotFactory None emptyBag k) (sourceGet ?src k)
          (worldOf (mergeLoop c ?src None pre (emptyBag, w)))"
      using False r sv e
      by (intro merge_assigns[OF names nk])
        (auto simp: isRaw_defined isRaw_no_methods defined_def isRaw_def)
    then show ?thesis by (simp add: f sv storedValue_raw)
  qed
qed

subsection \<open>Running the methods on concrete bags\<close>

lemmas example_simps = exampleCaps_def exampleBag_def exampleStore_def getMember_def defined_def
  supportsMerge_def supportsClone_def supportsGetValue_def callMerge_def callClone_def
  Property_isConstant_def Property_getValueOrUndefined_def Property_equals_def
  sourceGet_def sourcePropertyNames_def

lemmas run_simps = merge_def mergeLoop.simps mergeStep_def Let_def addProperty_def
  removeProperty_def defineAccessor_def deleteMember_def setMember_def raiseEvent_def
  wrapValue_def createRawProperty_def defaultValue_def snapshot_def emptyBag_def
  worldOf_def bagOf_def errorOf_def getValue_def isConstant_def indexOf_absent
  absentMember_def builtinNames_def bagNames_def objectNames_def

section \<open>The claims\<close>

subsection \<open>merge: a populated, mergeable member is merged into, never replaced\<close>

text \<open>
  C1. When the bag holds a defined value under the name \<open>n\<close> and that value has a
  \<open>merge\<close> method, the slot of \<open>n\<close> holds the same value after \<open>merge\<close> as before,
  whatever the source. When moreover \<open>n\<close> is a name of the source with a defined source
  value, the iteration for \<open>n\<close> is exactly the call
  \<^verbatim>\<open>existing.merge(sourceValue)\<close>: it leaves the bag as the iterations for the names
  before \<open>n\<close> left it and hands the store of member objects to the member's \<open>merge\<close>;
  the remaining names are processed from there.
\<close>

theorem merge_delegates_to_member:
  "defined (getMember b n) \<and> supportsMerge c (getMember b n) \<longrightarrow>
     getMember (bagOf (merge c source cb (b, w))) n = getMember b n
     \<and> (sourcePropertyNames source = pre @ n # post \<and> defined (sourceGet source n) \<longrightarrow>
          mergeStep c source cb n (snd (mergeLoop c source cb pre (b, w))) =
            (None, (bagOf (mergeLoop c source cb pre (b, w)),
                    callMerge c (getMember b n) (sourceGet source n)
                      (worldOf (mergeLoop c source cb pre (b, w)))))
          \<and> merge c source cb (b, w) =
              mergeLoop c source cb post
                (bagOf (mergeLoop c source cb pre (b, w)),
                 callMerge c (getMember b n) (sourceGet source n)
                   (worldOf (mergeLoop c source cb pre (b, w)))))"
proof (intro impI conjI; (elim conjE)?)
  assume d: "defined (getMember b n)"
  then show "getMember (bagOf (merge c source cb (b, w))) n = getMember b n"
    by (rule merge_keeps_defined)
next
  assume d: "defined (getMember b n)" and m: "supportsMerge c (getMember b n)"
    and sp: "sourcePropertyNames source = pre @ n # post"
    and sv: "defined (sourceGet source n)"
  let ?s1 = "snd (mergeLoop c source cb pre (b, w))"
  have k: "getMember (fst ?s1) n = getMember b n"
    using mergeLoop_keeps_defined[of "(b, w)" n c source cb pre] d by simp
  show step: "mergeStep c source cb n ?s1 =
      (None, (bagOf (mergeLoop c source cb pre (b, w)),
              callMerge c (getMember b n) (sourceGet source n)
                (worldOf (mergeLoop c source cb pre (b, w)))))"
    using d m sv k by (simp add: mergeStep_defined_target bagOf_def worldOf_def)
  show "merge c source cb (b, w) =
      mergeLoop c source cb post
        (bagOf (mergeLoop c source cb pre (b, w)),
         callMerge c (getMember b n) (sourceGet source n)
           (worldOf (mergeLoop c source cb pre (b, w))))"
    by (simp add: merge_split[OF sp] step)
qed

text \<open>
  Merging \<^verbatim>\<open>{c: 3, a: <object 2>}\<close> into the example bag: the member \<open>a\<close> is still
  the object 1, and the one call made on a member object is \<open>merge\<close> of the object 1
  with the object 2.
\<close>

theorem merge_delegates_to_member_witness:
  "getMember (bagOf (merge exampleCaps (PlainSource [(''c'', Num 3), (''a'', Obj 2)]) None
      (exampleBag, []))) ''a'' = Obj 1
   \<and> worldOf (merge exampleCaps (PlainSource [(''c'', Num 3), (''a'', Obj 2)]) None
      (exampleBag, [])) = [(1, Obj 2)]"
  using merge_delegates_to_member[where b = exampleBag and n = "''a''" and c = exampleCaps
      and source = "PlainSource [(''c'', Num 3), (''a'', Obj 2)]" and pre = "[''c'']" and post = "[]"
      and cb = None and w = "[]"]
  by (simp add: example_simps run_simps)

subsection \<open>merge: what is assigned, and where\<close>

text \<open>
  C2, as the claim states it, fails: a slot that already holds a defined value without a
  \<open>merge\<close> method is not assigned the source value. Merging \<^verbatim>\<open>{b: 8}\<close> into the
  example bag, whose member \<open>b\<close> is the number 7, leaves 7 under \<open>b\<close>.
\<close>

theorem merge_overwrite_counterexample:
  "defined (sourceGet (PlainSource [(''b'', Num 8)]) ''b'')
   \<and> defined (getMember exampleBag ''b'')
   \<and> \<not> supportsMerge exampleCaps (getMember exampleBag ''b'')
   \<and> getMember (bagOf (merge exampleCaps (PlainSource [(''b'', Num 8)]) None (exampleBag, []))) ''b''
       = Num 7
   \<and> sourceGet (PlainSource [(''b'', Num 8)]) ''b'' = Num 8"
  by (simp add: example_simps run_simps)

text \<open>
  C2, amended. Let \<open>n\<close> be a name that occurs once among the names of the source, with a
  defined source value. If the slot of \<open>n\<close> is empty and the source value does not have
  both \<open>merge\<close> and \<open>clone\<close>, the source value is assigned through the slot: the slot
  holds what its setter stores for it, which is the source value itself when that is a
  Property or the slot's callback is the default one. If the slot holds a defined value
  without \<open>merge\<close>, the iteration for \<open>n\<close> changes nothing and the slot keeps its value.
\<close>

theorem merge_assigns_into_empty_slot:
  "sourcePropertyNames source = pre @ n # post \<and> n \<notin> set pre \<and> n \<notin> set post
     \<and> defined (sourceGet source n) \<longrightarrow>
   (\<not> defined (getMember b n)
      \<and> \<not> (supportsMerge c (sourceGet source n) \<and> supportsClone c (sourceGet source n)) \<longrightarrow>
      getMember (bagOf (merge c source cb (b, w))) n =
        storedValue c (slotFactory cb b n) (sourceGet source n)
          (worldOf (mergeLoop c source cb pre (b, w)))
      \<and> (supportsGetValue c (sourceGet source n) \<or> slotFactory cb b n = None
           \<or> slotFactory cb b n = Some createRawProperty \<longrightarrow>
         getMember (bagOf (merge c source cb (b, w))) n = sourceGet source n))
   \<and> (defined (getMember b n) \<and> \<not> supportsMerge c (getMember b n) \<longrightarrow>
      getMember (bagOf (merge c source cb (b, w))) n = getMember b n
      \<and> mergeStep c source cb n (snd (mergeLoop c source cb pre (b, w))) =
          (None, snd (mergeLoop c source cb pre (b, w))))"
proof (intro impI conjI; (elim conjE)?)
  assume sp: "sourcePropertyNames source = pre @ n # post"
    and d: "n \<notin> set pre" "n \<notin> set post"
    and sv: "defined (sourceGet source n)"
    and tv: "\<not> defined (getMember b n)"
    and nc: "\<not> (supportsMerge c (sourceGet source n) \<and> supportsClone c (sourceGet source n))"
  show g: "getMember (bagOf (merge c source cb (b, w))) n =
      storedValue c (slotFactory cb b n) (sourceGet source n)
        (worldOf (mergeLoop c source cb pre (b, w)))"
    using sp d sv tv nc by (rule merge_assigns)
  assume "supportsGetValue c (sourceGet source n) \<or> slotFactory cb b n = None
      \<or> slotFactory cb b n = Some createRawProperty"
  then show "getMember (bagOf (merge c source cb (b, w))) n = sourceGet source n"
    by (simp add: g storedValue_raw)
next
  assume tv: "defined (getMember b n)"
  then show "getMember (bagOf (merge c source cb (b, w))) n = getMember b n"
    by (rule merge_keeps_defined)
  assume nm: "\<not> supportsMerge c (getMember b n)"
  let ?s1 = "snd (mergeLoop c source cb pre (b, w))"
  have k: "getMember (fst ?s1) n = getMember b n"
    using mergeLoop_keeps_defined[of "(b, w)" n c source cb pre] tv by simp
  show "mergeStep c source cb n ?s1 = (None, ?s1)"
    using tv nm k by (simp add: mergeStep_defined_target)
qed

text \<open>
  Merging \<^verbatim>\<open>{b: 8, c: 3}\<close> into the example bag: the new member \<open>c\<close> holds 3, the
  member \<open>b\<close> still holds 7.
\<close>

theorem merge_assigns_into_empty_slot_witness:
  "getMember (bagOf (merge exampleCaps (PlainSource [(''b'', Num 8), (''c'', Num 3)]) None
      (exampleBag, []))) ''c'' = Num 3
   \<and> getMember (bagOf (merge exampleCaps (PlainSource [(''b'', Num 8), (''c'', Num 3)]) None
      (exampleBag, []))) ''b'' = Num 7"
  using merge_assigns_into_empty_slot[where source = "PlainSource [(''b'', Num 8), (''c'', Num 3)]"
      and pre = "[''b'']" and n = "''c''" and post = "[]" and b = exampleBag and c = exampleCaps
      and cb = None and w = "[]"]
    merge_assigns_into_empty_slot[where source = "PlainSource [(''b'', Num 8), (''c'', Num 3)]"
      and pre = "[]" and n = "''b''" and post = "[''c'']" and b = exampleBag and c = exampleCaps
      and cb = None and w = "[]"]
  by (simp add: example_simps run_simps)

subsection \<open>merge: an undefined source value clears nothing\<close>

text \<open>
  C3. For a name whose value on the source is undefined or absent, \<open>merge\<close> leaves what
  the bag holds under that name: the value of a registered name is unchanged, a defined
  value is unchanged, and a slot without a value still has none. This holds for every
  bag and every source, also when \<open>merge\<close> fails because no source was passed.
\<close>

theorem merge_skips_undefined_source:
  "\<not> defined (sourceGet source n) \<longrightarrow>
     (n \<in> set (propertyNames b) \<longrightarrow>
        getMember (bagOf (merge c source cb (b, w))) n = getMember b n)
     \<and> (defined (getMember b n) \<longrightarrow>
        getMember (bagOf (merge c source cb (b, w))) n = getMember b n)
     \<and> (\<not> defined (getMember b n) \<longrightarrow>
        \<not> defined (getMember (bagOf (merge c source cb (b, w))) n))"
proof (cases "source = NoSource")
  case True
  then show ?thesis by (simp add: merge_def bagOf_def)
next
  case False
  then have m: "merge c source cb (b, w) = mergeLoop c source cb (sourcePropertyNames source) (b, w)"
    by (rule merge_loop)
  show ?thesis
    using mergeLoop_keeps_registered[of source n "(b, w)" c cb "sourcePropertyNames source"]
      mergeLoop_keeps_defined[of "(b, w)" n c source cb "sourcePropertyNames source"]
      mergeLoop_keeps_empty[of source n "(b, w)" c cb "sourcePropertyNames source"]
    by (simp add: m bagOf_def)
qed

text \<open>
  Merging \<^verbatim>\<open>{a: undefined, c: 3}\<close> into the example bag leaves the object 1 under
  \<open>a\<close>.
\<close>

theorem merge_skips_undefined_source_witness:
  "getMember (bagOf (merge exampleCaps (PlainSource [(''a'', Undefined), (''c'', Num 3)]) None
      (exampleBag, []))) ''a'' = Obj 1"
  using merge_skips_undefined_source[where source = "PlainSource [(''a'', Undefined), (''c'', Num 3)]"
      and n = "''a''" and b = exampleBag and c = exampleCaps and cb = None and w = "[]"]
  by (simp add: example_simps)

subsection \<open>addProperty and removeProperty: errors\<close>



subsection \<open>Merging a plain object into an empty bag\<close>

text \<open>
  C5, as the claim states it, fails for a key that the bag object answers by itself. On
  an empty bag \<^verbatim>\<open>this['equals']\<close> is the method \<open>equals\<close> of the prototype, a
  defined value: for the key \<open>equals\<close> the loop of \<open>merge\<close> neither calls
  \<open>addProperty\<close> (line 202) nor assigns (lines 207 to 210). Merging
  \<^verbatim>\<open>{equals: 1}\<close> into an empty bag registers nothing, and \<open>getValue\<close> then yields
  the empty object.
\<close>

theorem merge_plain_builtin_key_counterexample:
  "errorOf (merge exampleCaps (PlainSource [(''equals'', Num 1)]) None (emptyBag, [])) = None
   \<and> propertyNames (bagOf (merge exampleCaps (PlainSource [(''equals'', Num 1)]) None
        (emptyBag, []))) = []
   \<and> getValue exampleCaps
       (worldOf (merge exampleCaps (PlainSource [(''equals'', Num 1)]) None (emptyBag, [])))
       (bagOf (merge exampleCaps (PlainSource [(''equals'', Num 1)]) None (emptyBag, [])))
       (Some 0)
       = Inr []"
  by (simp add: example_simps run_simps)

text \<open>
  C5, amended. Take a plain object (its keys are distinct) none of whose keys is a name
  the bag answers by itself. Merging it into an empty bag succeeds and registers every
  key of the object, in the order of the keys, whatever callback is passed. When it is
  merged as in the claim, without a callback, and its values are raw values (numbers,
  strings, or undefined), a subsequent \<open>getValue\<close> returns, for every time, the object
  itself: each key with its raw value. A key that is a name the bag answers by itself is
  never registered, whatever the source.
\<close>

theorem merge_plain_then_getValue:
  "(distinct (map fst kvs) \<and> set (map fst kvs) \<inter> set builtinNames = {} \<longrightarrow>
     errorOf (merge c (PlainSource kvs) cb (emptyBag, w)) = None
     \<and> propertyNames (bagOf (merge c (PlainSource kvs) cb (emptyBag, w))) = map fst kvs
     \<and> (list_all isRaw (map snd kvs) \<longrightarrow>
          getValue c (worldOf (merge c (PlainSource kvs) None (emptyBag, w)))
            (bagOf (merge c (PlainSource kvs) None (emptyBag, w))) (Some t) = Inr kvs))
   \<and> (k \<in> set builtinNames \<longrightarrow>
        k \<notin> set (propertyNames (bagOf (merge c source cb (emptyBag, w)))))"
proof (intro impI conjI; (elim conjE)?)
  fix cb' :: "'a callback option"
  assume d: "distinct (map fst kvs)" and nb: "set (map fst kvs) \<inter> set builtinNames = {}"
  have reg: "errorOf (merge c (PlainSource kvs) cb' (emptyBag, w)) = None
      \<and> propertyNames (bagOf (merge c (PlainSource kvs) cb' (emptyBag, w))) = map fst kvs"
    for cb' :: "'a callback option"
  proof -
    have u: "\<forall>n \<in> set (map fst kvs). \<not> defined (getMember (fst (emptyBag :: 'a bag, w)) n)"
      using nb by (auto simp: emptyBag_member absentMember_defined)
    have "propertyNames (fst (snd (mergeLoop c (PlainSource kvs) cb' (map fst kvs) (emptyBag, w))))
        = propertyNames (fst (emptyBag :: 'a bag, w)) @ map fst kvs"
      using u d by (intro mergeLoop_registers) (simp_all add: emptyBag_def)
    then show ?thesis
      by (simp add: merge_def bagOf_def errorOf_def sourcePropertyNames_def emptyBag_def
          mergeLoop_no_error)
  qed
  show "errorOf (merge c (PlainSource kvs) cb (emptyBag, w)) = None"
    using reg[of cb] by simp
  show "propertyNames (bagOf (merge c (PlainSource kvs) cb (emptyBag, w))) = map fst kvs"
    using reg[of cb] by simp
  let ?r = "merge c (PlainSource kvs) None (emptyBag, w)"
  have n: "propertyNames (bagOf ?r) = map fst kvs"
    using reg[of None] by simp
  assume raw: "list_all isRaw (map snd kvs)"
  have m: "getMember (bagOf ?r) (fst p) = snd p \<and> isRaw (snd p)" if "p \<in> set kvs" for p
  proof -
    from that nb have "fst p \<notin> set builtinNames" by force
    then show ?thesis
      using merge_plain_member[OF d, of "fst p" "snd p" c w] that raw
      by (simp add: list_all_iff)
  qed
  have "getValue c (worldOf ?r) (bagOf ?r) (Some t) =
      Inr (map (\<lambda>k. (k, Property_getValueOrUndefined c (worldOf ?r) (getMember (bagOf ?r) k) t))
             (map fst kvs))"
    using getValue_distinct[of "bagOf ?r" c "worldOf ?r" t] d by (simp add: n)
  also have "map (\<lambda>k. (k, Property_getValueOrUndefined c (worldOf ?r) (getMember (bagOf ?r) k) t))
             (map fst kvs) = kvs"
    using m by (simp add: comp_def property_value_raw map_idI)
  finally show "getValue c (worldOf ?r) (bagOf ?r) (Some t) = Inr kvs" .
next
  assume b: "k \<in> set builtinNames"
  have "k \<notin> set (propertyNames (fst (snd (mergeLoop c source cb (sourcePropertyNames source)
      (emptyBag, w)))))"
    using b by (intro mergeLoop_never_registers)
      (simp_all add: emptyBag_member absentMember_defined, simp add: emptyBag_def)
  then show "k \<notin> set (propertyNames (bagOf (merge c source cb (emptyBag, w))))"
    by (cases source) (simp_all add: merge_def bagOf_def emptyBag_def)
qed

text \<open>
  Merging \<^verbatim>\<open>{a: 1, b: 2}\<close> into an empty bag, then evaluating at the time 5; and the
  key \<open>merge\<close> of \<^verbatim>\<open>{merge: 1, a: 2}\<close> is not registered.
\<close>

theorem merge_plain_then_getValue_witness:
  "propertyNames (bagOf (merge exampleCaps (PlainSource [(''a'', Num 1), (''b'', Num 2)]) None
      (emptyBag, []))) = [''a'', ''b'']
   \<and> getValue exampleCaps
       (worldOf (merge exampleCaps (PlainSource [(''a'', Num 1), (''b'', Num 2)]) None (emptyBag, [])))
       (bagOf (merge exampleCaps (PlainSource [(''a'', Num 1), (''b'', Num 2)]) None (emptyBag, [])))
       (Some 5)
       = Inr [(''a'', Num 1), (''b'', Num 2)]
   \<and> ''merge'' \<notin> set (propertyNames (bagOf (merge exampleCaps
        (PlainSource [(''merge'', Num 1), (''a'', Num 2)]) None (emptyBag, []))))"
  using merge_plain_then_getValue[where kvs = "[(''a'', Num 1), (''b'', Num 2)]" and c = exampleCaps
      and w = "[]" and t = 5 and cb = None and k = "''merge''"
      and source = "PlainSource [(''merge'', Num 1), (''a'', Num 2)]"]
  by (simp add: isRaw_def builtinNames_def bagNames_def objectNames_def)

subsection \<open>getValue\<close>



subsection \<open>addProperty: notifications\<close>

text \<open>
  C7, as the claim states it, fails for a call that supplies a value: the assignment of
  the value through the new slot changes the member's value and raises the bag's
  notification, and \<open>addProperty\<close> raises it once more at its end. Adding \<open>c\<close> with
  the value 1 to the example bag raises the notification twice.
\<close>

theorem addProperty_twice_counterexample:
  "errorOf (addProperty exampleCaps (Some ''c'') (Num 1) None (exampleBag, [])) = None
   \<and> length (raised (bagOf (addProperty exampleCaps (Some ''c'') (Num 1) None (exampleBag, []))))
       = length (raised exampleBag) + 2"
  by (simp add: example_simps run_simps)

text \<open>
  C7, amended. Take a name that is not yet registered and is not a name the bag answers
  by itself (for such a name line 121 replaces a field or method of the bag, and what
  follows is not modelled). A call of \<open>addProperty\<close> with it succeeds: the name is
  appended, the slot is installed with the given callback or the default
  one and holds the stored initial value (nothing when no value was supplied), and the
  last step is one raise of the bag's notification by \<open>addProperty\<close> itself, made when
  the registration is complete: the names and values a listener sees are those of the
  resulting bag. That is the only raise of a call without an initial value. A call with
  an initial value raises the notification once more before it, by the assignment
  through the new slot, whenever the value the slot stores is not undefined; both raises
  show the completed registration. With the default callback, and for a value that is a
  Property, the slot stores the value itself, so the notification is raised twice. It is
  raised once for a call with an initial value only when the callback passed to
  \<open>addProperty\<close> turns the value into undefined.
\<close>

theorem addProperty_notifications:
  "n \<notin> set (propertyNames b) \<and> n \<notin> set builtinNames \<longrightarrow>
     (let r = addProperty c (Some n) v cb (b, w);
          stored = (if defined v then fst (wrapValue c (defaultValue cb createRawProperty) v w)
                    else Undefined)
      in errorOf r = None
         \<and> propertyNames (bagOf r) = propertyNames b @ [n]
         \<and> accessors (bagOf r) n = Some (defaultValue cb createRawProperty)
         \<and> getMember (bagOf r) n = stored
         \<and> raised (bagOf r) =
             raised b @ replicate (if stored \<noteq> Undefined then 2 else 1) (snapshot (bagOf r))
         \<and> (\<not> defined v \<longrightarrow> raised (bagOf r) = raised b @ [snapshot (bagOf r)])
         \<and> (defined v \<and> (cb = None \<or> supportsGetValue c v) \<longrightarrow>
              stored = v
              \<and> raised (bagOf r) = raised b @ [snapshot (bagOf r), snapshot (bagOf r)]))"
proof
  assume "n \<notin> set (propertyNames b) \<and> n \<notin> set builtinNames"
  then have new: "n \<notin> set (propertyNames b)" ..
  let ?r = "addProperty c (Some n) v cb (b, w)"
  let ?stored = "if defined v then fst (wrapValue c (defaultValue cb createRawProperty) v w)
                 else Undefined"
  have main: "errorOf ?r = None
      \<and> propertyNames (bagOf ?r) = propertyNames b @ [n]
      \<and> accessors (bagOf ?r) n = Some (defaultValue cb createRawProperty)
      \<and> getMember (bagOf ?r) n = ?stored
      \<and> raised (bagOf ?r) =
          raised b @ replicate (if ?stored \<noteq> Undefined then 2 else 1) (snapshot (bagOf ?r))"
    using new
    by (simp add: addProperty_def indexOf_absent Let_def setMember_def defineAccessor_def
        raiseEvent_def snapshot_def errorOf_def bagOf_def getMember_def numeral_2_eq_2)
  have once: "raised (bagOf ?r) = raised b @ [snapshot (bagOf ?r)]" if "\<not> defined v"
    using main that by simp
  have same: "?stored = v" if "defined v" "cb = None \<or> supportsGetValue c v"
    using that by (auto simp: wrapValue_def defaultValue_def createRawProperty_def)
  have twice: "raised (bagOf ?r) = raised b @ [snapshot (bagOf ?r), snapshot (bagOf ?r)]"
    if "defined v" "cb = None \<or> supportsGetValue c v"
  proof -
    from that have "?stored \<noteq> Undefined" using same[OF that] by (auto simp: defined_def)
    with main show ?thesis by (simp add: numeral_2_eq_2)
  qed
  show "let r = ?r; stored = ?stored
      in errorOf r = None
         \<and> propertyNames (bagOf r) = propertyNames b @ [n]
         \<and> accessors (bagOf r) n = Some (defaultValue cb createRawProperty)
         \<and> getMember (bagOf r) n = stored
         \<and> raised (bagOf r) =
             raised b @ replicate (if stored \<noteq> Undefined then 2 else 1) (snapshot (bagOf r))
         \<and> (\<not> defined v \<longrightarrow> raised (bagOf r) = raised b @ [snapshot (bagOf r)])
         \<and> (defined v \<and> (cb = None \<or> supportsGetValue c v) \<longrightarrow>
              stored = v
              \<and> raised (bagOf r) = raised b @ [snapshot (bagOf r), snapshot (bagOf r)])"
    unfolding Let_def using main once same twice by blast
qed

text \<open>
  Adding \<open>c\<close> to the example bag: without a value one raise, with the value 1 two, and
  with the value 1 and a callback that returns undefined one.
\<close>

theorem addProperty_notifications_witness:
  "raised (bagOf (addProperty exampleCaps (Some ''c'') Undefined None (exampleBag, [])))
     = [[(''a'', Obj 1), (''b'', Num 7), (''c'', Undefined)]]
   \<and> raised (bagOf (addProperty exampleCaps (Some ''c'') (Num 1) None (exampleBag, [])))
     = [[(''a'', Obj 1), (''b'', Num 7), (''c'', Num 1)],
        [(''a'', Obj 1), (''b'', Num 7), (''c'', Num 1)]]
   \<and> raised (bagOf (addProperty exampleCaps (Some ''c'') (Num 1) (Some (\<lambda>v w. (Undefined, w)))
        (exampleBag, [])))
     = [[(''a'', Obj 1), (''b'', Num 7), (''c'', Undefined)]]"
  using addProperty_notifications[where n = "''c''" and b = exampleBag and c = exampleCaps
      and v = Undefined and cb = None and w = "[]"]
    addProperty_notifications[where n = "''c''" and b = exampleBag and c = exampleCaps
      and v = "Num 1" and cb = None and w = "[]"]
    addProperty_notifications[where n = "''c''" and b = exampleBag and c = exampleCaps
      and v = "Num 1" and cb = "Some (\<lambda>v w. (Undefined, w))" and w = "[]"]
  by (simp add: example_simps run_simps)

subsection \<open>isConstant\<close>



subsection \<open>equals\<close>



text \<open>
  C10. For undefined, for null and for every other value that is not a PropertyBag
  instance, \<open>equals\<close> returns false and raises no error, whatever the bag, the store
  and the behaviour of the member objects are. It does so because the test
  \<^verbatim>\<open>other instanceof PropertyBag\<close> comes first: \<open>propertiesEqual\<close>, which reads the
  names and members of both its arguments, is not evaluated for such a value, and
  evaluating it would raise a TypeError.
\<close>

theorem equals_rejects_non_bags:
  "equals c w h this Undefined = Inr False
   \<and> equals c w h this Null = Inr False
   \<and> propertiesEqual c w h (Obj this) Undefined = Inl TypeError
   \<and> propertiesEqual c w h (Obj this) Null = Inl TypeError
   \<and> (h this \<noteq> None \<and> \<not> instanceofPropertyBag h other \<longrightarrow>
        equals c w h this other = Inr False
        \<and> propertiesEqual c w h (Obj this) other = Inl TypeError
        \<and> (h' this \<noteq> None \<and> \<not> instanceofPropertyBag h' other \<longrightarrow>
             equals c' w' h' this other = equals c w h this other))"
proof (intro conjI impI; (elim conjE)?)
  have u: "\<not> instanceofPropertyBag h Undefined" "\<not> instanceofPropertyBag h Null"
    by (simp_all add: instanceofPropertyBag_def instanceAt_def)
  show "equals c w h this Undefined = Inr False" "equals c w h this Null = Inr False"
    using u by (simp_all add: equals_not_bag)
  show "propertiesEqual c w h (Obj this) Undefined = Inl TypeError"
    "propertiesEqual c w h (Obj this) Null = Inl TypeError"
    using u by (simp_all add: propertiesEqual_not_bag)
next
  assume t: "h this \<noteq> None" and n: "\<not> instanceofPropertyBag h other"
  from t n have d: "other \<noteq> Obj this"
    by (auto simp: instanceofPropertyBag_def instanceAt_def)
  show e: "equals c w h this other = Inr False"
    using n d by (rule equals_not_bag)
  show "propertiesEqual c w h (Obj this) other = Inl TypeError"
    using n by (rule propertiesEqual_not_bag)
  assume "h' this \<noteq> None" and n': "\<not> instanceofPropertyBag h' other"
  then have "equals c' w' h' this other = Inr False"
    using d by (intro equals_not_bag) auto
  with e show "equals c' w' h' this other = equals c w h this other" by simp
qed

text \<open>
  On the example store \<open>equals\<close> answers false for undefined, null, a string and the
  address 7, where there is no bag; \<open>propertiesEqual\<close> on any of them raises.
\<close>

theorem equals_rejects_non_bags_witness:
  "equals exampleCaps [] exampleStore 0 Undefined = Inr False
   \<and> equals exampleCaps [] exampleStore 0 Null = Inr False
   \<and> equals exampleCaps [] exampleStore 0 (Str ''bag'') = Inr False
   \<and> equals exampleCaps [] exampleStore 0 (Obj 7) = Inr False
   \<and> propertiesEqual exampleCaps [] exampleStore (Obj 0) (Str ''bag'') = Inl TypeError
   \<and> propertiesEqual exampleCaps [] exampleStore (Obj 0) (Obj 7) = Inl TypeError"
  using equals_rejects_non_bags[where c = exampleCaps and w = "[]" and h = exampleStore
      and this = 0 and other = "Str ''bag''" and c' = exampleCaps and w' = "[]"
      and h' = exampleStore]
    equals_rejects_non_bags[where c = exampleCaps and w = "[]" and h = exampleStore
      and this = 0 and other = "Obj 7" and c' = exampleCaps and w' = "[]"
      and h' = exampleStore]
  by (simp add: exampleStore_def instanceofPropertyBag_def instanceAt_def)

end
